theory Spec2Isabelle
  imports Main "HOL-Library.AList" "HOL-Library.Sublist"
begin

section \<open>The OpenHexa command-line client: configuration and pipeline commands\<close>

text \<open>
  A shallow embedding of the command functions of \<^verbatim>\<open>src/openhexa/cli.py\<close>.
  Every command is a function from the world it runs in (the stored configuration and
  the effects performed so far) to the way the command ends and the world it leaves.
\<close>

subsection \<open>Data model\<close>

text \<open>
  Modelled from the spec: the configuration object that \<^verbatim>\<open>open_config\<close> of the
  \<^verbatim>\<open>api\<close> module returns (that module is not among the source files). The fields
  are the ones section 3 of the specification lists and \<^verbatim>\<open>cli.py\<close> reads and writes:
  the three settings of section \<^verbatim>\<open>openhexa\<close>, the options of section
  \<^verbatim>\<open>workspaces\<close> in insertion order (slug and token, compared as plain strings),
  and every other section by its name, such as \<^verbatim>\<open>pipelines.<slug>\<close>.
\<close>

record config =
  url :: string
  debug :: bool
  current_workspace :: string
  workspaces :: "(string \<times> string) list"
  sections :: "(string \<times> (string \<times> string) list) list"

text \<open>A Python exception: \<^verbatim>\<open>click.Abort\<close>, or any other one with its message.\<close>

datatype exn = Abort | Error string

text \<open>The object \<^verbatim>\<open>import_pipeline\<close> returns; the commands read its \<^verbatim>\<open>code\<close> only.\<close>

datatype pipeline = Pipeline (code: string)

text \<open>
  One entry of the list \<^verbatim>\<open>get_pipelines\<close> returns, typed as the contract of the remote
  client in section 6 of the specification: \<^verbatim>\<open>pipeline["code"]\<close>,
  \<^verbatim>\<open>pipeline["name"]\<close> and \<^verbatim>\<open>pipeline["currentVersion"].get("number")\<close>, which is
  \<open>None\<close> when the key is missing.
\<close>

record pipeline_info =
  info_code :: string
  info_name :: string
  currentVersion_number :: "int option"

text \<open>Everything a command does to the outside, in the order it does it.\<close>

datatype event =
    Echo string
  | EchoErr string
  | EchoValue "pipeline_info list"
  | GetWorkspace string string
  | ImportPipeline string
  | GetPipelines
  | GetPipeline string
  | Confirm string
  | CreatePipeline string
  | UploadPipeline string "string list"
  | SaveConfig

text \<open>How a command ends: it returns, calls \<^verbatim>\<open>sys.exit\<close>, or an exception leaves it.\<close>

datatype outcome = Returned | Exited int | Raised exn

record world =
  stored :: config
  trace :: "event list"

text \<open>
  The collaborators a command calls, as parameters: the functions of the \<^verbatim>\<open>api\<close>
  module that reach the backend or the pipeline file, \<^verbatim>\<open>os.path.exists\<close>, and the
  operator's answer to the question of \<^verbatim>\<open>click.confirm\<close> (an empty answer counts as
  yes, the default the command passes). A call that raises is \<open>Some e\<close> or \<open>Inl e\<close>.
\<close>

record remote =
  get_workspace :: "config \<Rightarrow> string \<Rightarrow> string \<Rightarrow> exn option"
  path_exists :: "string \<Rightarrow> bool"
  import_pipeline :: "config \<Rightarrow> string \<Rightarrow> exn + pipeline"
  get_pipelines :: "config \<Rightarrow> exn + pipeline_info list"
  get_pipeline :: "config \<Rightarrow> string \<Rightarrow> exn + pipeline_info option"
  confirm :: "string \<Rightarrow> bool"
  create_pipeline :: "config \<Rightarrow> string \<Rightarrow> exn option"
  upload_pipeline :: "config \<Rightarrow> string \<Rightarrow> string list \<Rightarrow> exn + int"

subsection \<open>Configuration store and terminal\<close>

definition emit :: "event \<Rightarrow> world \<Rightarrow> world" where
  "emit e w = w\<lparr>trace := trace w @ [e]\<rparr>"

definition echo :: "string \<Rightarrow> world \<Rightarrow> world" where
  "echo s w = emit (Echo s) w"

definition echo_err :: "string \<Rightarrow> world \<Rightarrow> world" where
  "echo_err s w = emit (EchoErr s) w"

text \<open>
  Modelled from the spec: \<^verbatim>\<open>open_config\<close>, \<^verbatim>\<open>save_config\<close> and \<^verbatim>\<open>is_debug\<close> of
  the \<^verbatim>\<open>api\<close> module. Opening yields the configuration the last save wrote, saving
  overwrites it in full, and \<^verbatim>\<open>is_debug\<close> reads the debug flag.
\<close>

definition open_config :: "world \<Rightarrow> config" where
  "open_config w = stored w"

definition save_config :: "config \<Rightarrow> world \<Rightarrow> world" where
  "save_config c w = emit SaveConfig (w\<lparr>stored := c\<rparr>)"

definition is_debug :: "config \<Rightarrow> bool" where
  "is_debug c = debug c"

text \<open>
  \<^verbatim>\<open>click.style\<close> wraps the text in ANSI escape sequences and a final reset:
  \<^verbatim>\<open>bold=True\<close> is \<^verbatim>\<open>ESC[1m\<close>; \<^verbatim>\<open>fg='bright_blue', underline=True\<close> is
  \<^verbatim>\<open>ESC[94m\<close> then \<^verbatim>\<open>ESC[4m\<close>.
\<close>

definition style_bold :: "string \<Rightarrow> string" where
  "style_bold s = CHR 0x1B # ''[1m'' @ s @ CHR 0x1B # ''[0m''"

definition style_link :: "string \<Rightarrow> string" where
  "style_link s = CHR 0x1B # ''[94m'' @ CHR 0x1B # ''[4m'' @ s @ CHR 0x1B # ''[0m''"

text \<open>Python's \<^verbatim>\<open>sep.join(xs)\<close>.\<close>

fun join :: "string \<Rightarrow> string list \<Rightarrow> string" where
  "join sep [] = []"
| "join sep [x] = x"
| "join sep (x # y # ys) = x @ sep @ join sep (y # ys)"

text \<open>Python's \<^verbatim>\<open>str\<close> of an integer, as an f-string formats it.\<close>

fun str_nat :: "nat \<Rightarrow> string" where
  "str_nat n =
     (if n < 10 then [''0123456789'' ! n]
      else str_nat (n div 10) @ [''0123456789'' ! (n mod 10)])"

declare str_nat.simps [simp del]

definition str_int :: "int \<Rightarrow> string" where
  "str_int i = (if i < 0 then ''-'' @ str_nat (nat (- i)) else str_nat (nat i))"

definition keys :: "('k \<times> 'v) list \<Rightarrow> 'k list" where
  "keys al = map fst al"

subsection \<open>The command group\<close>

text \<open>
  Lines 24 to 34: the callback of the top-level group runs before every subcommand and
  stores the debug flag of the invocation.
\<close>

definition app :: "bool \<Rightarrow> world \<Rightarrow> world" where
  "app dbg w =
     (let user_config = open_config w
      in save_config (user_config\<lparr>debug := dbg\<rparr>) w)"

subsection \<open>Workspace commands\<close>

text \<open>Lines 69 to 72: store the token, make the slug current, save.\<close>

definition add_persist :: "config \<Rightarrow> string \<Rightarrow> string \<Rightarrow> world \<Rightarrow> outcome \<times> world" where
  "add_persist user_config slug token w =
     (Returned,
      save_config
        (user_config\<lparr>workspaces := AList.update slug token (workspaces user_config),
                      current_workspace := slug\<rparr>) w)"

definition workspaces_add :: "remote \<Rightarrow> string \<Rightarrow> string \<Rightarrow> world \<Rightarrow> outcome \<times> world" where
  "workspaces_add r slug token w =
     (let user_config = open_config w;
          w1 = (if slug \<in> set (keys (workspaces user_config))
                then echo (''Workspace '' @ slug @ '' already exists. We will only update its token.'') w
                else echo (''Adding workspace '' @ slug) w);
          w2 = emit (GetWorkspace slug token) w1
      in case get_workspace r user_config slug token of
           None \<Rightarrow> add_persist user_config slug token w2
         | Some e \<Rightarrow>
             (let w3 = echo_err ''Error while getting workspace. Check the slug of the workspace and the access token.'' w2
              in if is_debug user_config then (Raised e, w3)
                 else add_persist user_config slug token w3))"

definition workspaces_activate :: "string \<Rightarrow> world \<Rightarrow> outcome \<times> world" where
  "workspaces_activate slug w =
     (let user_config = open_config w
      in if slug \<notin> set (keys (workspaces user_config))
         then (Returned,
               echo (join '', '' (keys (workspaces user_config)))
                 (echo (''Workspace '' @ slug @ '' does not exist. Available workspaces:'') w))
         else (Returned,
               save_config (user_config\<lparr>current_workspace := slug\<rparr>)
                 (echo (''Activating workspace '' @ slug) w)))"

definition workspaces_rm :: "string \<Rightarrow> world \<Rightarrow> outcome \<times> world" where
  "workspaces_rm slug w =
     (let user_config = open_config w
      in if slug \<notin> set (keys (workspaces user_config))
         then (Returned, echo (''Workspace '' @ slug @ '' does not exist'') w)
         else
           (let w1 = echo (''Removing workspace '' @ slug) w;
                c1 = user_config\<lparr>workspaces := AList.delete slug (workspaces user_config)\<rparr>;
                c2 = (if (''pipelines.'' @ slug) \<in> set (keys (sections c1))
                      then c1\<lparr>sections := AList.delete (''pipelines.'' @ slug) (sections c1)\<rparr>
                      else c1);
                c3 = (if current_workspace c2 = slug
                      then c2\<lparr>current_workspace := ''''\<rparr>
                      else c2)
            in (Returned, save_config c3 w1)))"

subsection \<open>Pipeline commands\<close>

text \<open>The address line 230 builds.\<close>

definition pipeline_url :: "config \<Rightarrow> string \<Rightarrow> string \<Rightarrow> string" where
  "pipeline_url user_config workspace c =
     url user_config @ ''/workspaces/'' @ workspace @ ''/pipelines/'' @ c"

text \<open>Lines 223 to 233: upload the files and report the version and the address.\<close>

definition push_upload ::
  "remote \<Rightarrow> string \<Rightarrow> string list \<Rightarrow> config \<Rightarrow> string \<Rightarrow> pipeline \<Rightarrow> world \<Rightarrow> outcome \<times> world" where
  "push_upload r path files user_config workspace p w =
     (let w1 = echo (''Pushing pipeline '' @ style_bold (code p) @ '' to workspace '' @ style_bold workspace) w;
          w2 = emit (UploadPipeline path files) w1
      in case upload_pipeline r user_config path files of
           Inl e \<Rightarrow> (Raised e, w2)
         | Inr new_version \<Rightarrow>
             (Returned,
              echo (''Done! You can view the pipeline in OpenHexa on '' @
                    style_link (pipeline_url user_config workspace (code p)))
                (echo (''Version: '' @ str_int new_version) w2)))"

text \<open>The question \<^verbatim>\<open>click.confirm\<close> asks on line 217.\<close>

definition create_question :: "string \<Rightarrow> string \<Rightarrow> string" where
  "create_question c workspace =
     ''Create pipeline '' @ style_bold c @ '' in workspace '' @ style_bold workspace @ ''?''"

text \<open>
  Lines 208 to 221, the \<^verbatim>\<open>else\<close> block of the import: list the pipelines of the
  workspace, look the code up, and create the pipeline when the lookup finds none and
  the operator agrees. \<^verbatim>\<open>click.confirm\<close> with \<^verbatim>\<open>abort=True\<close> raises \<^verbatim>\<open>click.Abort\<close>
  on a negative answer.
\<close>

definition push_resolved ::
  "remote \<Rightarrow> string \<Rightarrow> string list \<Rightarrow> config \<Rightarrow> string \<Rightarrow> pipeline \<Rightarrow> world \<Rightarrow> outcome \<times> world" where
  "push_resolved r path files user_config workspace p w =
     (let w1 = emit GetPipelines w
      in case get_pipelines r user_config of
           Inl e \<Rightarrow> (Raised e, w1)
         | Inr workspace_pipelines \<Rightarrow>
             (let w2 = (if is_debug user_config then emit (EchoValue workspace_pipelines) w1 else w1);
                  w3 = emit (GetPipeline (code p)) w2
              in case get_pipeline r user_config (code p) of
                   Inl e \<Rightarrow> (Raised e, w3)
                 | Inr (Some found) \<Rightarrow> push_upload r path files user_config workspace p w3
                 | Inr None \<Rightarrow>
                     (let w4 = echo (''Pipeline '' @ style_bold (code p) @ '' found in '' @ path @
                                     '' does not exist in workspace '' @ style_bold workspace) w3;
                          w5 = emit (Confirm (create_question (code p) workspace)) w4
                      in if \<not> confirm r (create_question (code p) workspace) then (Raised Abort, w5)
                         else
                           (let w6 = emit (CreatePipeline (code p)) w5
                            in case create_pipeline r user_config (code p) of
                                 Some e \<Rightarrow> (Raised e, w6)
                               | None \<Rightarrow> push_upload r path files user_config workspace p w6))))"

definition pipelines_push :: "remote \<Rightarrow> string \<Rightarrow> string list \<Rightarrow> world \<Rightarrow> outcome \<times> world" where
  "pipelines_push r path files w =
     (let user_config = open_config w;
          workspace = current_workspace user_config
      in if workspace = '''' then (Exited 1, echo_err ''No workspace activated'' w)
         else if \<not> path_exists r path then (Exited 1, echo_err (path @ '': file not found'') w)
         else
           (let w1 = emit (ImportPipeline path) w
            in case import_pipeline r user_config path of
                 Inl e \<Rightarrow>
                   (let w2 = echo_err ''Error while importing pipeline'' w1
                    in if is_debug user_config then (Raised e, w2) else (Exited 1, w2))
               | Inr p \<Rightarrow> push_resolved r path files user_config workspace p w1))"

text \<open>Lines 254 to 259: the line printed for one pipeline of the list.\<close>

definition render_pipeline :: "pipeline_info \<Rightarrow> string" where
  "render_pipeline p =
     (let version = currentVersion_number p;
          version' = (case version of
                        None \<Rightarrow> ''N/A''
                      | Some n \<Rightarrow> if n \<noteq> 0 then ''v'' @ str_int n else ''N/A'')
      in ''* '' @ info_code p @ '' - '' @ info_name p @ '' ('' @ version' @ '')'')"

definition pipelines_list :: "remote \<Rightarrow> world \<Rightarrow> outcome \<times> world" where
  "pipelines_list r w =
     (let user_config = open_config w;
          workspace = current_workspace user_config
      in if workspace = '''' then (Exited 1, echo_err ''No workspace activated'' w)
         else
           (let w1 = emit GetPipelines w
            in case get_pipelines r user_config of
                 Inl e \<Rightarrow> (Raised e, w1)
               | Inr workspace_pipelines \<Rightarrow>
                   if length workspace_pipelines = 0
                   then (Returned, echo (''No pipelines in workspace '' @ workspace) w1)
                   else (Returned,
                         fold (\<lambda>p. echo (render_pipeline p)) workspace_pipelines
                           (echo ''Pipelines:'' w1))))"

text \<open>
  The status the process ends with: 0 when the command returns, the argument of
  \<^verbatim>\<open>sys.exit\<close>, and 1 when an exception leaves the command (click turns
  \<^verbatim>\<open>click.Abort\<close> into exit status 1, the interpreter any other exception).
\<close>

definition exit_status :: "outcome \<Rightarrow> int" where
  "exit_status out = (case out of Returned \<Rightarrow> 0 | Exited n \<Rightarrow> n | Raised e \<Rightarrow> 1)"

subsection \<open>Sequences of workspace operations\<close>

datatype workspace_op = Add string string | Activate string | Remove string

fun run_op :: "remote \<Rightarrow> workspace_op \<Rightarrow> world \<Rightarrow> outcome \<times> world" where
  "run_op r (Add slug token) w = workspaces_add r slug token w"
| "run_op r (Activate slug) w = workspaces_activate slug w"
| "run_op r (Remove slug) w = workspaces_rm slug w"

text \<open>
  Each operation is one run of the program, with its own debug flag and with the backend
  answering as it does at that moment: the group callback runs, then the subcommand. The
  next run opens what the runs before it left stored.
\<close>

fun run_ops :: "(bool \<times> remote \<times> workspace_op) list \<Rightarrow> world \<Rightarrow> world" where
  "run_ops [] w = w"
| "run_ops ((dbg, r, op) # rest) w = run_ops rest (snd (run_op r op (app dbg w)))"

definition current_workspace_ok :: "config \<Rightarrow> bool" where
  "current_workspace_ok c =
     (current_workspace c = '''' \<or> current_workspace c \<in> set (keys (workspaces c)))"

subsection \<open>Reading a run\<close>

text \<open>The events a command added to the trace of the world \<open>w\<close> it started in.\<close>

definition events_of :: "world \<Rightarrow> world \<Rightarrow> event list" where
  "events_of w w' = drop (length (trace w)) (trace w')"

fun is_echo :: "event \<Rightarrow> bool" where
  "is_echo (Echo s) = True"
| "is_echo (EchoErr s) = True"
| "is_echo (EchoValue v) = True"
| "is_echo e = False"

text \<open>The calls to collaborators and the prompts among the events: all but terminal output.\<close>

definition calls :: "event list \<Rightarrow> event list" where
  "calls tr = filter (\<lambda>e. \<not> is_echo e) tr"

subsection \<open>A concrete setting\<close>

definition example_config :: config where
  "example_config =
     \<lparr>url = ''https://app.openhexa.org'', debug = False, current_workspace = ''demo'',
      workspaces = [(''demo'', ''secret'')], sections = [(''pipelines.demo'', [])]\<rparr>"

definition example_world :: world where
  "example_world = \<lparr>stored = example_config, trace = []\<rparr>"

definition example_info :: pipeline_info where
  "example_info = \<lparr>info_code = ''X'', info_name = ''Example'', currentVersion_number = Some 6\<rparr>"

text \<open>A backend where every call succeeds, the pipeline \<open>X\<close> exists and the upload is version 7.\<close>

definition example_remote :: remote where
  "example_remote =
     \<lparr>get_workspace = (\<lambda>c slug token. None),
      path_exists = (\<lambda>path. True),
      import_pipeline = (\<lambda>c path. Inr (Pipeline ''X'')),
      get_pipelines = (\<lambda>c. Inr [example_info]),
      get_pipeline = (\<lambda>c k. Inr (Some example_info)),
      confirm = (\<lambda>question. True),
      create_pipeline = (\<lambda>c k. None),
      upload_pipeline = (\<lambda>c path files. Inr 7)\<rparr>"

text \<open>The same backend, rejecting the workspace credentials.\<close>

definition failing_remote :: remote where
  "failing_remote = example_remote\<lparr>get_workspace := (\<lambda>c slug token. Some (Error ''401''))\<rparr>"

definition debug_world :: world where
  "debug_world = \<lparr>stored = example_config\<lparr>debug := True\<rparr>, trace = []\<rparr>"

text \<open>A backend without the pipeline \<open>X\<close>, with an operator who agrees to create it.\<close>

definition fresh_remote :: remote where
  "fresh_remote =
     example_remote\<lparr>get_pipelines := (\<lambda>c. Inr []), get_pipeline := (\<lambda>c k. Inr None)\<rparr>"

text \<open>The same, with an operator who declines.\<close>

definition declining_remote :: remote where
  "declining_remote = fresh_remote\<lparr>confirm := (\<lambda>question. False)\<rparr>"

text \<open>A backend whose list of pipelines holds \<open>X\<close> while its lookup of \<open>X\<close> finds nothing.\<close>

definition stale_remote :: remote where
  "stale_remote = example_remote\<lparr>get_pipeline := (\<lambda>c k. Inr None)\<rparr>"

text \<open>A pipeline whose current version has the number 0, and a backend listing it.\<close>

definition zero_info :: pipeline_info where
  "zero_info = \<lparr>info_code = ''A'', info_name = ''Alpha'', currentVersion_number = Some 0\<rparr>"

definition zero_remote :: remote where
  "zero_remote = example_remote\<lparr>get_pipelines := (\<lambda>c. Inr [zero_info])\<rparr>"

definition no_workspace_world :: world where
  "no_workspace_world = \<lparr>stored = example_config\<lparr>current_workspace := ''''\<rparr>, trace = []\<rparr>"

section \<open>Properties\<close>

lemmas world_defs = emit_def echo_def echo_err_def open_config_def save_config_def is_debug_def

lemmas example_defs = example_config_def example_world_def example_info_def example_remote_def

subsection \<open>Association lists\<close>

lemma keys_delete: "k \<notin> set (keys (AList.delete k al))"
  by (auto simp add: keys_def AList.delete_eq)

lemma keys_delete_other:
  "k \<in> set (keys al) \<Longrightarrow> k \<noteq> j \<Longrightarrow> k \<in> set (keys (AList.delete j al))"
  by (force simp add: keys_def AList.delete_eq)

lemma keys_update: "k \<in> set (keys (AList.update k v al))"
  by (simp add: keys_def AList.update_keys)

subsection \<open>The current workspace is a known workspace\<close>

lemma add_ok:
  "current_workspace_ok (stored w) \<Longrightarrow>
   current_workspace_ok (stored (snd (workspaces_add r slug token w)))"
  by (auto simp add: workspaces_add_def add_persist_def world_defs Let_def
      current_workspace_ok_def keys_update split: option.splits)

lemma activate_ok:
  "current_workspace_ok (stored w) \<Longrightarrow>
   current_workspace_ok (stored (snd (workspaces_activate slug w)))"
  by (auto simp add: workspaces_activate_def world_defs Let_def current_workspace_ok_def)

lemma rm_ok:
  "current_workspace_ok (stored w) \<Longrightarrow>
   current_workspace_ok (stored (snd (workspaces_rm slug w)))"
  by (auto simp add: workspaces_rm_def world_defs Let_def current_workspace_ok_def
      keys_delete_other)

lemma run_op_ok:
  "current_workspace_ok (stored w) \<Longrightarrow> current_workspace_ok (stored (snd (run_op r op w)))"
  by (cases op) (simp_all add: add_ok activate_ok rm_ok)

lemma app_ok:
  "current_workspace_ok (stored w) \<Longrightarrow> current_workspace_ok (stored (app dbg w))"
  by (simp add: app_def world_defs current_workspace_ok_def)

lemma run_ops_ok:
  "current_workspace_ok (stored w) \<Longrightarrow> current_workspace_ok (stored (run_ops steps w))"
proof (induction steps arbitrary: w)
  case Nil
  then show ?case by simp
next
  case (Cons step steps)
  obtain dbg r op where step: "step = (dbg, r, op)" by (cases step)
  from Cons.prems have "current_workspace_ok (stored (app dbg w))"
    by (rule app_ok)
  then have "current_workspace_ok (stored (snd (run_op r op (app dbg w))))"
    by (rule run_op_ok)
  then show ?case using Cons.IH step by simp
qed

text \<open>
  Claim C1. Start from a default configuration: no workspace, no current workspace, any
  backend address, debug flag and other sections. After any finite sequence of add,
  activate and remove operations, whatever the debug flag of each run and whatever the
  backend answers to each add, the current workspace of the stored configuration is the
  empty string or a key of the workspaces mapping.
\<close>

theorem current_workspace_invariant:
  "current_workspace_ok
     (stored (run_ops steps
        \<lparr>stored = \<lparr>url = u, debug = d, current_workspace = '''', workspaces = [], sections = s\<rparr>,
         trace = tr\<rparr>))"
  by (rule run_ops_ok) (simp add: current_workspace_ok_def)

theorem current_workspace_invariant_witness:
  "current_workspace_ok
     (stored (run_ops
        [(False, example_remote, Add ''a'' ''t1''), (False, failing_remote, Add ''b'' ''t2''),
         (True, failing_remote, Add ''c'' ''t3''), (False, example_remote, Activate ''a''),
         (False, example_remote, Remove ''a'')]
        \<lparr>stored = \<lparr>url = ''https://app.openhexa.org'', debug = False, current_workspace = '''',
                    workspaces = [], sections = []\<rparr>,
         trace = []\<rparr>))
   \<and> stored (run_ops
        [(False, example_remote, Add ''a'' ''t1''), (False, failing_remote, Add ''b'' ''t2''),
         (True, failing_remote, Add ''c'' ''t3''), (False, example_remote, Activate ''a''),
         (False, example_remote, Remove ''a'')]
        \<lparr>stored = \<lparr>url = ''https://app.openhexa.org'', debug = False, current_workspace = '''',
                    workspaces = [], sections = []\<rparr>,
         trace = []\<rparr>)
     = \<lparr>url = ''https://app.openhexa.org'', debug = False, current_workspace = '''',
        workspaces = [(''b'', ''t2'')], sections = []\<rparr>"
proof -
  have inv: "current_workspace_ok
     (stored (run_ops
        [(False, example_remote, Add ''a'' ''t1''), (False, failing_remote, Add ''b'' ''t2''),
         (True, failing_remote, Add ''c'' ''t3''), (False, example_remote, Activate ''a''),
         (False, example_remote, Remove ''a'')]
        \<lparr>stored = \<lparr>url = ''https://app.openhexa.org'', debug = False, current_workspace = '''',
                    workspaces = [], sections = []\<rparr>,
         trace = []\<rparr>))"
    by (rule current_workspace_invariant)
  have final: "stored (run_ops
        [(False, example_remote, Add ''a'' ''t1''), (False, failing_remote, Add ''b'' ''t2''),
         (True, failing_remote, Add ''c'' ''t3''), (False, example_remote, Activate ''a''),
         (False, example_remote, Remove ''a'')]
        \<lparr>stored = \<lparr>url = ''https://app.openhexa.org'', debug = False, current_workspace = '''',
                    workspaces = [], sections = []\<rparr>,
         trace = []\<rparr>)
     = \<lparr>url = ''https://app.openhexa.org'', debug = False, current_workspace = '''',
        workspaces = [(''b'', ''t2'')], sections = []\<rparr>"
    by (simp add: example_defs failing_remote_def app_def workspaces_add_def add_persist_def workspaces_activate_def
        workspaces_rm_def world_defs keys_def Let_def)
  from inv final show ?thesis by (rule conjI)
qed

subsection \<open>Removing a workspace\<close>

text \<open>
  Claim C2. For every configuration and every slug that is a key of its workspaces
  mapping, remove(slug) returns and leaves a stored configuration in which the slug is
  no key of the workspaces mapping and no section is named \<^verbatim>\<open>pipelines.<slug>\<close>; if
  the slug was the current workspace before, the current workspace is the empty string
  afterwards.
\<close>

theorem remove_cleanup:
  assumes "slug \<in> set (keys (workspaces (stored w)))"
  shows "fst (workspaces_rm slug w) = Returned
       \<and> slug \<notin> set (keys (workspaces (stored (snd (workspaces_rm slug w)))))
       \<and> (''pipelines.'' @ slug) \<notin> set (keys (sections (stored (snd (workspaces_rm slug w)))))
       \<and> (current_workspace (stored w) = slug \<longrightarrow>
            current_workspace (stored (snd (workspaces_rm slug w))) = '''')"
  using assms by (auto simp add: workspaces_rm_def world_defs Let_def keys_delete)

theorem remove_cleanup_witness:
  "''demo'' \<in> set (keys (workspaces (stored example_world)))
   \<and> current_workspace (stored example_world) = ''demo''
   \<and> ''pipelines.demo'' \<in> set (keys (sections (stored example_world)))
   \<and> fst (workspaces_rm ''demo'' example_world) = Returned
   \<and> ''demo'' \<notin> set (keys (workspaces (stored (snd (workspaces_rm ''demo'' example_world)))))
   \<and> ''pipelines.demo'' \<notin> set (keys (sections (stored (snd (workspaces_rm ''demo'' example_world)))))
   \<and> current_workspace (stored (snd (workspaces_rm ''demo'' example_world))) = ''''"
proof -
  have known: "''demo'' \<in> set (keys (workspaces (stored example_world)))"
    by (simp add: example_defs keys_def)
  have current: "current_workspace (stored example_world) = ''demo''"
    by (simp add: example_defs)
  have sect: "''pipelines.demo'' \<in> set (keys (sections (stored example_world)))"
    by (simp add: example_defs keys_def)
  from remove_cleanup [OF known] known current sect show ?thesis by simp
qed

subsection \<open>Unknown slugs\<close>

text \<open>
  Claim C9. For every slug that is no key of the workspaces mapping, activate(slug) and
  remove(slug) each return normally (exit status 0) and leave the world as it was except
  for what they print: the stored configuration is the same and \<^verbatim>\<open>save_config\<close> is
  not called. Both print that the workspace does not exist; activate then prints the
  known slugs, joined by commas.
\<close>

theorem unknown_slug_unchanged:
  assumes "slug \<notin> set (keys (workspaces (stored w)))"
  shows "workspaces_activate slug w =
           (Returned,
            w\<lparr>trace := trace w @
               [Echo (''Workspace '' @ slug @ '' does not exist. Available workspaces:''),
                Echo (join '', '' (keys (workspaces (stored w))))]\<rparr>)
       \<and> workspaces_rm slug w =
           (Returned, w\<lparr>trace := trace w @ [Echo (''Workspace '' @ slug @ '' does not exist'')]\<rparr>)
       \<and> stored (snd (workspaces_activate slug w)) = stored w
       \<and> stored (snd (workspaces_rm slug w)) = stored w
       \<and> SaveConfig \<notin> set (events_of w (snd (workspaces_activate slug w)))
       \<and> SaveConfig \<notin> set (events_of w (snd (workspaces_rm slug w)))
       \<and> exit_status (fst (workspaces_activate slug w)) = 0
       \<and> exit_status (fst (workspaces_rm slug w)) = 0"
  using assms
  by (simp add: workspaces_activate_def workspaces_rm_def world_defs events_of_def
      exit_status_def)

theorem unknown_slug_unchanged_witness:
  "''prod'' \<notin> set (keys (workspaces (stored example_world)))
   \<and> workspaces_activate ''prod'' example_world =
       (Returned,
        example_world\<lparr>trace :=
          [Echo ''Workspace prod does not exist. Available workspaces:'', Echo ''demo'']\<rparr>)
   \<and> workspaces_rm ''prod'' example_world =
       (Returned, example_world\<lparr>trace := [Echo ''Workspace prod does not exist'']\<rparr>)"
proof -
  have unknown: "''prod'' \<notin> set (keys (workspaces (stored example_world)))"
    by (simp add: example_defs keys_def)
  from unknown_slug_unchanged [OF unknown] unknown show ?thesis
    by (simp add: example_defs keys_def)
qed

subsection \<open>Adding a workspace\<close>

text \<open>
  Claim C8. When the remote validation of add(slug, token) raises \<open>e\<close>: with debug mode
  off the command prints the warning on the error stream, saves the configuration with
  the entry slug -> token and with the slug as current workspace, and returns; with
  debug mode on the command ends with the exception \<open>e\<close>. Whenever add returns, the
  stored configuration maps the slug to the token and the slug is the current workspace.
\<close>

theorem add_validation_failure:
  "(get_workspace r (stored w) slug token = Some e \<and> \<not> is_debug (stored w) \<longrightarrow>
      fst (workspaces_add r slug token w) = Returned
    \<and> EchoErr ''Error while getting workspace. Check the slug of the workspace and the access token.''
        \<in> set (events_of w (snd (workspaces_add r slug token w)))
    \<and> SaveConfig \<in> set (events_of w (snd (workspaces_add r slug token w)))
    \<and> map_of (workspaces (stored (snd (workspaces_add r slug token w)))) slug = Some token
    \<and> current_workspace (stored (snd (workspaces_add r slug token w))) = slug)
   \<and> (get_workspace r (stored w) slug token = Some e \<and> is_debug (stored w) \<longrightarrow>
        fst (workspaces_add r slug token w) = Raised e)
   \<and> (fst (workspaces_add r slug token w) = Returned \<longrightarrow>
        SaveConfig \<in> set (events_of w (snd (workspaces_add r slug token w)))
      \<and> map_of (workspaces (stored (snd (workspaces_add r slug token w)))) slug = Some token
      \<and> current_workspace (stored (snd (workspaces_add r slug token w))) = slug)"
  by (auto simp add: workspaces_add_def add_persist_def world_defs events_of_def Let_def
      AList.update_conv' split: option.splits)

theorem add_validation_failure_witness:
  "get_workspace failing_remote (stored example_world) ''prod'' ''t0ken'' = Some (Error ''401'')
   \<and> \<not> is_debug (stored example_world)
   \<and> fst (workspaces_add failing_remote ''prod'' ''t0ken'' example_world) = Returned
   \<and> map_of (workspaces (stored (snd (workspaces_add failing_remote ''prod'' ''t0ken'' example_world))))
        ''prod'' = Some ''t0ken''
   \<and> current_workspace (stored (snd (workspaces_add failing_remote ''prod'' ''t0ken'' example_world)))
        = ''prod''
   \<and> get_workspace failing_remote (stored debug_world) ''prod'' ''t0ken'' = Some (Error ''401'')
   \<and> is_debug (stored debug_world)
   \<and> fst (workspaces_add failing_remote ''prod'' ''t0ken'' debug_world) = Raised (Error ''401'')"
proof -
  have fails: "get_workspace failing_remote (stored example_world) ''prod'' ''t0ken'' = Some (Error ''401'')"
    by (simp add: example_defs failing_remote_def debug_world_def)
  have quiet: "\<not> is_debug (stored example_world)"
    by (simp add: example_defs failing_remote_def debug_world_def is_debug_def)
  have fails': "get_workspace failing_remote (stored debug_world) ''prod'' ''t0ken'' = Some (Error ''401'')"
    by (simp add: example_defs failing_remote_def debug_world_def)
  have loud: "is_debug (stored debug_world)"
    by (simp add: example_defs failing_remote_def debug_world_def is_debug_def)
  from add_validation_failure [of failing_remote example_world "''prod''" "''t0ken''" "Error ''401''"]
    add_validation_failure [of failing_remote debug_world "''prod''" "''t0ken''" "Error ''401''"]
    fails quiet fails' loud
  show ?thesis by simp
qed

text \<open>
  Claim C10. When debug mode is on and the remote validation of add(slug, token) raises
  \<open>e\<close>, the command ends with \<open>e\<close> before anything is persisted: \<^verbatim>\<open>save_config\<close> is
  not called and the stored configuration, with its workspaces mapping and its current
  workspace, is the one the command found.
\<close>

theorem add_debug_failure_unchanged:
  assumes "is_debug (stored w)"
    and "get_workspace r (stored w) slug token = Some e"
  shows "fst (workspaces_add r slug token w) = Raised e
       \<and> stored (snd (workspaces_add r slug token w)) = stored w
       \<and> SaveConfig \<notin> set (events_of w (snd (workspaces_add r slug token w)))"
  using assms
  by (auto simp add: workspaces_add_def add_persist_def world_defs events_of_def Let_def)

theorem add_debug_failure_unchanged_witness:
  "is_debug (stored debug_world)
   \<and> get_workspace failing_remote (stored debug_world) ''demo'' ''changed'' = Some (Error ''401'')
   \<and> fst (workspaces_add failing_remote ''demo'' ''changed'' debug_world) = Raised (Error ''401'')
   \<and> workspaces (stored (snd (workspaces_add failing_remote ''demo'' ''changed'' debug_world)))
       = [(''demo'', ''secret'')]
   \<and> current_workspace (stored (snd (workspaces_add failing_remote ''demo'' ''changed'' debug_world)))
       = ''demo''"
proof -
  have loud: "is_debug (stored debug_world)"
    by (simp add: example_defs failing_remote_def debug_world_def is_debug_def)
  have fails: "get_workspace failing_remote (stored debug_world) ''demo'' ''changed'' = Some (Error ''401'')"
    by (simp add: example_defs failing_remote_def debug_world_def)
  from add_debug_failure_unchanged [OF loud fails] loud fails show ?thesis
    by (simp add: example_defs failing_remote_def debug_world_def)
qed

subsection \<open>No active workspace\<close>

text \<open>
  Claim C5. When the current workspace is the empty string, pipelines push and pipelines
  list each print \<^verbatim>\<open>No workspace activated\<close> on the error stream and exit with status
  1; that message is the only effect, so no collaborator is called.
\<close>

theorem no_active_workspace:
  assumes "current_workspace (stored w) = ''''"
  shows "pipelines_push r path files w =
           (Exited 1, w\<lparr>trace := trace w @ [EchoErr ''No workspace activated'']\<rparr>)
       \<and> pipelines_list r w =
           (Exited 1, w\<lparr>trace := trace w @ [EchoErr ''No workspace activated'']\<rparr>)
       \<and> exit_status (fst (pipelines_push r path files w)) \<noteq> 0
       \<and> exit_status (fst (pipelines_list r w)) \<noteq> 0
       \<and> calls (events_of w (snd (pipelines_push r path files w))) = []
       \<and> calls (events_of w (snd (pipelines_list r w))) = []"
  using assms
  by (simp add: pipelines_push_def pipelines_list_def world_defs exit_status_def calls_def
      events_of_def)

theorem no_active_workspace_witness:
  "current_workspace (stored no_workspace_world) = ''''
   \<and> pipelines_push example_remote ''pipeline.py'' [] no_workspace_world =
       (Exited 1, no_workspace_world\<lparr>trace := [EchoErr ''No workspace activated'']\<rparr>)
   \<and> pipelines_list example_remote no_workspace_world =
       (Exited 1, no_workspace_world\<lparr>trace := [EchoErr ''No workspace activated'']\<rparr>)"
proof -
  have none: "current_workspace (stored no_workspace_world) = ''''"
    by (simp add: example_defs no_workspace_world_def)
  from no_active_workspace [OF none] none show ?thesis
    by (simp add: example_defs no_workspace_world_def)
qed

subsection \<open>Pushing a pipeline\<close>

lemmas push_defs = pipelines_push_def push_resolved_def push_upload_def

text \<open>
  Claim C3. Take a push that resolves the pipeline code and whose remote lookup of that
  code finds no pipeline. The command asks the operator to confirm the creation. If the
  operator confirms, the calls and prompts of the run are, in this order: the import, the
  listing, the lookup, the confirmation, the creation and, when the creation succeeds,
  the upload; so the creation comes after the confirmation and before the upload. If the
  operator declines, the run stops at the confirmation: the creation and the upload are
  never called, the command ends with \<^verbatim>\<open>click.Abort\<close> and the exit status is not 0. The
  stored configuration is the same in both cases.
\<close>

theorem push_create_path:
  assumes "current_workspace (stored w) \<noteq> ''''"
    and "path_exists r path"
    and "import_pipeline r (stored w) path = Inr p"
    and "get_pipelines r (stored w) = Inr ps"
    and "get_pipeline r (stored w) (code p) = Inr None"
  shows "let out = fst (pipelines_push r path files w);
             w' = snd (pipelines_push r path files w);
             question = create_question (code p) (current_workspace (stored w))
         in stored w' = stored w \<and>
            (if confirm r question
             then calls (events_of w w') =
                    [ImportPipeline path, GetPipelines, GetPipeline (code p), Confirm question,
                     CreatePipeline (code p)] @
                    (if create_pipeline r (stored w) (code p) = None
                     then [UploadPipeline path files] else [])
             else calls (events_of w w') =
                    [ImportPipeline path, GetPipelines, GetPipeline (code p), Confirm question]
                  \<and> out = Raised Abort \<and> exit_status out \<noteq> 0)"
  using assms
  by (auto simp add: push_defs world_defs calls_def events_of_def exit_status_def Let_def
      split: sum.splits option.splits)

theorem push_create_path_witness:
  "calls (events_of example_world (snd (pipelines_push fresh_remote ''pipeline.py'' [] example_world))) =
     [ImportPipeline ''pipeline.py'', GetPipelines, GetPipeline ''X'',
      Confirm (create_question ''X'' ''demo''), CreatePipeline ''X'',
      UploadPipeline ''pipeline.py'' []]
   \<and> calls (events_of example_world
        (snd (pipelines_push declining_remote ''pipeline.py'' [] example_world))) =
     [ImportPipeline ''pipeline.py'', GetPipelines, GetPipeline ''X'',
      Confirm (create_question ''X'' ''demo'')]
   \<and> fst (pipelines_push declining_remote ''pipeline.py'' [] example_world) = Raised Abort
   \<and> stored (snd (pipelines_push declining_remote ''pipeline.py'' [] example_world)) = example_config"
proof -
  have ws: "current_workspace (stored example_world) \<noteq> ''''"
    by (simp add: example_defs fresh_remote_def declining_remote_def)
  have yes: "path_exists fresh_remote ''pipeline.py''"
    "import_pipeline fresh_remote (stored example_world) ''pipeline.py'' = Inr (Pipeline ''X'')"
    "get_pipelines fresh_remote (stored example_world) = Inr []"
    "get_pipeline fresh_remote (stored example_world) (code (Pipeline ''X'')) = Inr None"
    by (simp_all add: example_defs fresh_remote_def declining_remote_def)
  have no: "path_exists declining_remote ''pipeline.py''"
    "import_pipeline declining_remote (stored example_world) ''pipeline.py'' = Inr (Pipeline ''X'')"
    "get_pipelines declining_remote (stored example_world) = Inr []"
    "get_pipeline declining_remote (stored example_world) (code (Pipeline ''X'')) = Inr None"
    by (simp_all add: example_defs fresh_remote_def declining_remote_def)
  have answers: "confirm fresh_remote (create_question ''X'' ''demo'')"
    "\<not> confirm declining_remote (create_question ''X'' ''demo'')"
    "create_pipeline fresh_remote (stored example_world) ''X'' = None"
    "current_workspace (stored example_world) = ''demo''"
    "stored example_world = example_config"
    by (simp_all add: example_defs fresh_remote_def declining_remote_def)
  from push_create_path [OF ws yes, of "[]"] push_create_path [OF ws no, of "[]"] answers
  show ?thesis by (simp add: Let_def)
qed

text \<open>
  The list that \<^verbatim>\<open>get_pipelines\<close> returns does not decide between creating and
  updating: push asks \<^verbatim>\<open>get_pipeline\<close> for the code. Here the list holds the code
  \<open>X\<close> of the pushed pipeline and the lookup finds nothing: push prompts and creates.
\<close>

theorem push_update_path_counterexample:
  "import_pipeline stale_remote (stored example_world) ''pipeline.py'' = Inr (Pipeline ''X'')
   \<and> get_pipelines stale_remote (stored example_world) = Inr [example_info]
   \<and> info_code example_info = ''X''
   \<and> calls (events_of example_world (snd (pipelines_push stale_remote ''pipeline.py'' [] example_world))) =
       [ImportPipeline ''pipeline.py'', GetPipelines, GetPipeline ''X'',
        Confirm (create_question ''X'' ''demo''), CreatePipeline ''X'',
        UploadPipeline ''pipeline.py'' []]"
  by (simp add: example_defs stale_remote_def push_defs world_defs calls_def events_of_def Let_def)

text \<open>
  Claim C4, amended. Take a push that resolves the pipeline code and whose remote lookup
  of that code (\<^verbatim>\<open>get_pipeline\<close>) finds a pipeline. The calls and prompts of the run
  are the import, the listing, the lookup and the upload: there is no confirmation and no
  creation, and nothing is called on the existing pipeline but the upload. The stored
  configuration is the same. The list \<open>ps\<close> that \<^verbatim>\<open>get_pipelines\<close> returned does not
  decide any of this, whatever it holds: the events of the run are the same for every
  list, except that the list is echoed, once and before the lookup, exactly when debug
  mode is on. The command returns when the upload succeeds and ends with the exception
  of the upload otherwise.
\<close>

theorem push_update_path:
  assumes "current_workspace (stored w) \<noteq> ''''"
    and "path_exists r path"
    and "import_pipeline r (stored w) path = Inr p"
    and "get_pipelines r (stored w) = Inr ps"
    and "get_pipeline r (stored w) (code p) = Inr (Some found)"
  shows "calls (events_of w (snd (pipelines_push r path files w))) =
           [ImportPipeline path, GetPipelines, GetPipeline (code p), UploadPipeline path files]
       \<and> stored (snd (pipelines_push r path files w)) = stored w
       \<and> events_of w (snd (pipelines_push r path files w)) =
           [ImportPipeline path, GetPipelines] @
           (if is_debug (stored w) then [EchoValue ps] else []) @
           [GetPipeline (code p),
            Echo (''Pushing pipeline '' @ style_bold (code p) @ '' to workspace '' @
                  style_bold (current_workspace (stored w))),
            UploadPipeline path files] @
           (case upload_pipeline r (stored w) path files of
              Inl e \<Rightarrow> []
            | Inr N \<Rightarrow>
                [Echo (''Version: '' @ str_int N),
                 Echo (''Done! You can view the pipeline in OpenHexa on '' @
                       style_link (pipeline_url (stored w) (current_workspace (stored w)) (code p)))])
       \<and> (EchoValue ps \<in> set (events_of w (snd (pipelines_push r path files w)))
            \<longleftrightarrow> is_debug (stored w))
       \<and> fst (pipelines_push r path files w) =
           (case upload_pipeline r (stored w) path files of
              Inl e \<Rightarrow> Raised e | Inr N \<Rightarrow> Returned)"
  using assms
  by (auto simp add: push_defs world_defs calls_def events_of_def Let_def
      split: sum.splits option.splits)

theorem push_update_path_witness:
  "calls (events_of example_world
     (snd (pipelines_push example_remote ''pipeline.py'' [''data.csv''] example_world))) =
     [ImportPipeline ''pipeline.py'', GetPipelines, GetPipeline ''X'',
      UploadPipeline ''pipeline.py'' [''data.csv'']]
   \<and> stored (snd (pipelines_push example_remote ''pipeline.py'' [''data.csv''] example_world))
       = example_config
   \<and> fst (pipelines_push example_remote ''pipeline.py'' [''data.csv''] example_world) = Returned
   \<and> \<not> is_debug (stored example_world)
   \<and> EchoValue [example_info] \<notin>
       set (events_of example_world
         (snd (pipelines_push example_remote ''pipeline.py'' [''data.csv''] example_world)))
   \<and> is_debug (stored debug_world)
   \<and> EchoValue [example_info] \<in>
       set (events_of debug_world
         (snd (pipelines_push example_remote ''pipeline.py'' [''data.csv''] debug_world)))
   \<and> calls (events_of debug_world
        (snd (pipelines_push example_remote ''pipeline.py'' [''data.csv''] debug_world))) =
       [ImportPipeline ''pipeline.py'', GetPipelines, GetPipeline ''X'',
        UploadPipeline ''pipeline.py'' [''data.csv'']]"
proof -
  have ws: "current_workspace (stored example_world) \<noteq> ''''"
    by (simp add: example_defs)
  have found: "path_exists example_remote ''pipeline.py''"
    "import_pipeline example_remote (stored example_world) ''pipeline.py'' = Inr (Pipeline ''X'')"
    "get_pipelines example_remote (stored example_world) = Inr [example_info]"
    "get_pipeline example_remote (stored example_world) (code (Pipeline ''X'')) = Inr (Some example_info)"
    by (simp_all add: example_defs)
  have ws': "current_workspace (stored debug_world) \<noteq> ''''"
    by (simp add: example_defs debug_world_def)
  have found': "path_exists example_remote ''pipeline.py''"
    "import_pipeline example_remote (stored debug_world) ''pipeline.py'' = Inr (Pipeline ''X'')"
    "get_pipelines example_remote (stored debug_world) = Inr [example_info]"
    "get_pipeline example_remote (stored debug_world) (code (Pipeline ''X'')) = Inr (Some example_info)"
    by (simp_all add: example_defs)
  have st: "stored example_world = example_config"
    by (simp add: example_defs)
  have up: "upload_pipeline example_remote (stored example_world) ''pipeline.py'' [''data.csv''] = Inr 7"
    by (simp add: example_defs)
  have quiet: "\<not> is_debug (stored example_world)"
    by (simp add: example_defs is_debug_def)
  have loud: "is_debug (stored debug_world)"
    by (simp add: example_defs debug_world_def is_debug_def)
  note quiet_run = push_update_path [OF ws found, of "[''data.csv'']"]
  note debug_run = push_update_path [OF ws' found', of "[''data.csv'']"]
  from quiet_run [THEN conjunct1] have quiet_calls: "calls (events_of example_world
     (snd (pipelines_push example_remote ''pipeline.py'' [''data.csv''] example_world))) =
     [ImportPipeline ''pipeline.py'', GetPipelines, GetPipeline ''X'',
      UploadPipeline ''pipeline.py'' [''data.csv'']]"
    by simp
  from quiet_run [THEN conjunct2, THEN conjunct1] st have quiet_stored:
    "stored (snd (pipelines_push example_remote ''pipeline.py'' [''data.csv''] example_world))
       = example_config"
    by simp
  from quiet_run [THEN conjunct2, THEN conjunct2, THEN conjunct2, THEN conjunct2] up
  have quiet_out:
    "fst (pipelines_push example_remote ''pipeline.py'' [''data.csv''] example_world) = Returned"
    by simp
  from quiet_run [THEN conjunct2, THEN conjunct2, THEN conjunct2, THEN conjunct1] quiet
  have quiet_echo: "EchoValue [example_info] \<notin>
       set (events_of example_world
         (snd (pipelines_push example_remote ''pipeline.py'' [''data.csv''] example_world)))"
    by blast
  from debug_run [THEN conjunct2, THEN conjunct2, THEN conjunct2, THEN conjunct1] loud
  have debug_echo: "EchoValue [example_info] \<in>
       set (events_of debug_world
         (snd (pipelines_push example_remote ''pipeline.py'' [''data.csv''] debug_world)))"
    by blast
  from debug_run [THEN conjunct1] have debug_calls: "calls (events_of debug_world
        (snd (pipelines_push example_remote ''pipeline.py'' [''data.csv''] debug_world))) =
       [ImportPipeline ''pipeline.py'', GetPipelines, GetPipeline ''X'',
        UploadPipeline ''pipeline.py'' [''data.csv'']]"
    by simp
  from quiet_calls quiet_stored quiet_out quiet quiet_echo loud debug_echo debug_calls
  show ?thesis by (intro conjI)
qed

subsection \<open>The report of a push\<close>

lemma sublist_style_link: "sublist s (pre @ style_link s)"
  unfolding sublist_def style_link_def
  by (rule exI [of _ "pre @ CHR 0x1B # ''[94m'' @ CHR 0x1B # ''[4m''"],
      rule exI [of _ "CHR 0x1B # ''[0m''"]) simp

lemma push_reaches_report:
  assumes "UploadPipeline path files \<in> set (events_of w (snd (pipelines_push r path files w)))"
    and "upload_pipeline r (stored w) path files = Inr N"
  shows "\<exists>p. import_pipeline r (stored w) path = Inr p
         \<and> fst (pipelines_push r path files w) = Returned
         \<and> suffix [Echo (''Version: '' @ str_int N),
                    Echo (''Done! You can view the pipeline in OpenHexa on '' @
                          style_link (pipeline_url (stored w) (current_workspace (stored w)) (code p)))]
             (events_of w (snd (pipelines_push r path files w)))"
  using assms
  by (auto simp add: push_defs world_defs events_of_def Let_def suffix_Cons
      split: sum.splits option.splits if_splits)

text \<open>
  Claim C6. Take a push that reaches the upload, and let the upload return the version
  number \<open>N\<close>. Then the pipeline file was imported as some \<open>p\<close>, the command returns, and
  the last two lines it prints are \<^verbatim>\<open>Version: N\<close> and the closing message, which
  contains the link made of the configured backend address, \<^verbatim>\<open>/workspaces/\<close>, the
  current workspace, \<^verbatim>\<open>/pipelines/\<close> and the code of \<open>p\<close>.
\<close>

theorem push_report:
  assumes "UploadPipeline path files \<in> set (events_of w (snd (pipelines_push r path files w)))"
    and "upload_pipeline r (stored w) path files = Inr N"
  shows "\<exists>p link.
           import_pipeline r (stored w) path = Inr p
         \<and> link = url (stored w) @ ''/workspaces/'' @ current_workspace (stored w) @
                  ''/pipelines/'' @ code p
         \<and> fst (pipelines_push r path files w) = Returned
         \<and> suffix [Echo (''Version: '' @ str_int N),
                    Echo (''Done! You can view the pipeline in OpenHexa on '' @ style_link link)]
             (events_of w (snd (pipelines_push r path files w)))
         \<and> sublist link (''Done! You can view the pipeline in OpenHexa on '' @ style_link link)"
proof -
  from push_reaches_report [OF assms] obtain p where
    p: "import_pipeline r (stored w) path = Inr p"
       "fst (pipelines_push r path files w) = Returned"
       "suffix [Echo (''Version: '' @ str_int N),
                Echo (''Done! You can view the pipeline in OpenHexa on '' @
                      style_link (pipeline_url (stored w) (current_workspace (stored w)) (code p)))]
          (events_of w (snd (pipelines_push r path files w)))"
    by blast
  let ?link = "pipeline_url (stored w) (current_workspace (stored w)) (code p)"
  have link: "?link = url (stored w) @ ''/workspaces/'' @ current_workspace (stored w) @
                  ''/pipelines/'' @ code p"
    by (simp only: pipeline_url_def)
  have sub: "sublist ?link (''Done! You can view the pipeline in OpenHexa on '' @ style_link ?link)"
    by (rule sublist_style_link)
  from p link sub show ?thesis by metis
qed

theorem push_report_witness:
  "UploadPipeline ''pipeline.py'' [] \<in>
     set (events_of example_world (snd (pipelines_push example_remote ''pipeline.py'' [] example_world)))
   \<and> upload_pipeline example_remote (stored example_world) ''pipeline.py'' [] = Inr 7
   \<and> suffix [Echo ''Version: 7'',
              Echo (''Done! You can view the pipeline in OpenHexa on '' @
                    style_link ''https://app.openhexa.org/workspaces/demo/pipelines/X'')]
       (events_of example_world (snd (pipelines_push example_remote ''pipeline.py'' [] example_world)))"
proof -
  have up: "UploadPipeline ''pipeline.py'' [] \<in>
     set (events_of example_world (snd (pipelines_push example_remote ''pipeline.py'' [] example_world)))"
    by (simp add: example_defs push_defs world_defs events_of_def Let_def)
  have seven: "upload_pipeline example_remote (stored example_world) ''pipeline.py'' [] = Inr 7"
    by (simp add: example_defs)
  have imp: "import_pipeline example_remote (stored example_world) ''pipeline.py'' = Inr (Pipeline ''X'')"
    by (simp add: example_defs)
  have cfg: "url (stored example_world) = ''https://app.openhexa.org''"
    "current_workspace (stored example_world) = ''demo''"
    by (simp_all add: example_defs)
  have str7: "str_int 7 = ''7''"
    by (simp add: str_int_def str_nat.simps)
  from push_report [OF up seven] obtain p link where
    r: "import_pipeline example_remote (stored example_world) ''pipeline.py'' = Inr p"
       "link = url (stored example_world) @ ''/workspaces/'' @
               current_workspace (stored example_world) @ ''/pipelines/'' @ code p"
       "suffix [Echo (''Version: '' @ str_int 7),
                Echo (''Done! You can view the pipeline in OpenHexa on '' @ style_link link)]
          (events_of example_world (snd (pipelines_push example_remote ''pipeline.py'' [] example_world)))"
    by blast
  from r(1) imp have "p = Pipeline ''X''" by simp
  with r(2) cfg have "link = ''https://app.openhexa.org/workspaces/demo/pipelines/X''" by simp
  with r(3) str7 up seven show ?thesis by simp
qed

subsection \<open>Listing the pipelines\<close>

lemma fold_echo:
  "fold (\<lambda>p. echo (f p)) ps w = w\<lparr>trace := trace w @ map (\<lambda>p. Echo (f p)) ps\<rparr>"
  by (induction ps arbitrary: w) (simp_all add: echo_def emit_def)

lemma list_rendering_agrees:
  assumes "current_workspace (stored w) \<noteq> ''''"
    and "get_pipelines r (stored w) = Inr ps"
    and "ps \<noteq> []"
  shows "pipelines_list r w =
           (Returned,
            w\<lparr>trace := trace w @ GetPipelines # Echo ''Pipelines:'' #
                         map (\<lambda>p. Echo (render_pipeline p)) ps\<rparr>)
       \<and> (\<forall>p \<in> set ps.
            (\<forall>n. currentVersion_number p = Some n \<and> n \<noteq> 0 \<longrightarrow>
               render_pipeline p =
                 ''* '' @ info_code p @ '' - '' @ info_name p @ '' (v'' @ str_int n @ '')'')
          \<and> (currentVersion_number p = None \<longrightarrow>
               render_pipeline p = ''* '' @ info_code p @ '' - '' @ info_name p @ '' (N/A)''))"
  using assms
  by (auto simp add: pipelines_list_def world_defs fold_echo render_pipeline_def Let_def
      split: option.splits)

text \<open>
  Claim C7. The claim asks for the line \<^verbatim>\<open>* code - name (vN)\<close> whenever the number of
  the current version is present with value \<open>N\<close>, and for \<^verbatim>\<open>(N/A)\<close> only when no number
  is present. Lines 254 to 258 fetch the number with \<^verbatim>\<open>.get("number")\<close> and test it
  with \<^verbatim>\<open>if version:\<close>, which is also false for the number 0. So the code departs
  from the claim there: for a backend listing one pipeline \<open>A\<close> whose current version
  has the number 0, the number is present, the claim asks for \<^verbatim>\<open>* A - Alpha (v0)\<close>,
  and the command prints \<^verbatim>\<open>* A - Alpha (N/A)\<close>.
\<close>

theorem list_rendering_zero:
  "get_pipelines zero_remote (stored example_world) = Inr [zero_info]
   \<and> currentVersion_number zero_info = Some 0
   \<and> pipelines_list zero_remote example_world =
       (Returned,
        example_world\<lparr>trace := [GetPipelines, Echo ''Pipelines:'', Echo ''* A - Alpha (N/A)'']\<rparr>)
   \<and> ''* '' @ info_code zero_info @ '' - '' @ info_name zero_info @ '' (v'' @ str_int 0 @ '')''
       = ''* A - Alpha (v0)''
   \<and> render_pipeline zero_info \<noteq> ''* A - Alpha (v0)''"
  by (simp add: example_defs zero_info_def zero_remote_def pipelines_list_def world_defs
      render_pipeline_def Let_def str_int_def str_nat.simps)

end
